theory Spec2Isabelle
  imports Main
begin

section \<open>Data model of \<open>django_saml2_auth/views.py\<close>\<close>

text \<open>
  The views are Python functions over a Django request. Everything they do beyond
  returning a response is made explicit here: exceptions are values of \<open>error\<close>,
  the session, the user table and the principal bound to the session are fields of a
  \<open>state\<close> record that every handler takes and returns, and each effect on a
  collaborator is appended to the \<open>trace\<close> of the invocation.
\<close>

datatype error =
    KeyError
  | IndexError
  | ValueError
  | DoesNotExist
  | MultipleObjectsReturned
  | GroupDoesNotExist
  | IntegrityError
  | ReverseIssue
  | ImportError
  | HookError
  | SamlError
  | DisallowedRedirect

text \<open>An argument of Django's \<open>reverse\<close>: a view callable or a URL pattern name.\<close>

datatype viewref = View string | UrlName string

datatype response = HttpResponseRedirect "string option" | Render string

datatype binding = BINDING_HTTP_REDIRECT | BINDING_HTTP_POST

datatype metadata_conf = Inline "string list" | Remote "string option list"

text \<open>The dictionary \<open>saml_settings\<close> built by \<open>_get_saml_client\<close> and the
  configuration loaded from it. \<open>allow_unknown_attributes\<close> is the attribute of the
  loaded configuration, which pysaml2 leaves false until line 153 sets it.\<close>

record sp_config =
  metadata :: metadata_conf
  assertion_consumer_service :: "(string \<times> binding) list"
  allow_unsolicited :: bool
  authn_requests_signed :: bool
  logout_requests_signed :: bool
  want_assertions_signed :: bool
  want_response_signed :: bool
  name_id_format :: "string option"
  entityid :: string
  allow_unknown_attributes :: bool

type_synonym identity = "string \<rightharpoonup> string list"

record authn_response =
  get_identity :: "identity option"

record user =
  username :: string
  email :: string
  first_name :: string
  last_name :: string
  groups :: "string list"
  is_active :: bool
  is_staff :: bool
  is_superuser :: bool

text \<open>The keys of \<open>settings.SAML2_AUTH\<close> that the module reads; an absent key is
  \<open>None\<close>.\<close>

record new_user_profile =
  USER_GROUPS :: "string list option"
  ACTIVE_STATUS :: "bool option"
  STAFF_STATUS :: "bool option"
  SUPERUSER_STATUS :: "bool option"

record trigger =
  BEFORE_LOGIN :: "string option"
  TRIGGER_CREATE_USER :: "string option"

record saml2_auth =
  ASSERTION_URL :: "string option"
  METADATA_INLINE :: "string option"
  DEFAULT_NEXT_URL :: "string option"
  NAME_ID_FORMAT :: "string option"
  ATTRIBUTES_MAP :: "(string \<rightharpoonup> string) option"
  TRIGGER :: "trigger option"
  CREATE_USER :: "bool option"
  NEW_USER_PROFILE :: "new_user_profile option"

text \<open>
  The collaborators of the module, as parameters: Django's URL resolver, its redirect
  safety check and its version, the scheme check in the constructor of
  \<open>HttpResponseRedirect\<close>, the URL functions of the Python standard library, the
  configuration loader and the SAML client of pysaml2 and the loader of extension hooks.
  A collaborator that can raise returns a sum, or the exception as an option when it has
  no result.
\<close>

record env =
  SAML2_AUTH :: saml2_auth
  django_version_ge_2 :: bool
  reverse :: "viewref \<Rightarrow> string option"
  url_has_allowed_host_and_scheme :: "string \<Rightarrow> string list option \<Rightarrow> bool"
  allowed_redirect_scheme :: "string \<Rightarrow> bool"
  unquote :: "string \<Rightarrow> string"
  urlparse_query :: "string \<Rightarrow> error + string"
  parse_qs :: "string \<Rightarrow> (string \<rightharpoonup> string list)"
  Saml2Config_load :: "sp_config \<Rightarrow> error option"
  Saml2Client :: "sp_config \<Rightarrow> error option"
  parse_authn_request_response :: "sp_config \<Rightarrow> string \<Rightarrow> binding \<Rightarrow> error + authn_response option"
  prepare_for_authenticate :: "sp_config \<Rightarrow> error + (string \<times> string) list"
  import_string :: "string \<Rightarrow> error + (identity \<Rightarrow> error option)"

record request =
  GET :: "string \<rightharpoonup> string"
  POST :: "string \<rightharpoonup> string"
  is_secure :: bool
  get_host :: string

datatype event =
    SessionGet string
  | SessionSet string string
  | SessionFlush
  | Login string
  | LogInfo string
  | LogWarning string
  | ParseResponse string
  | UserCreated string
  | HookCalled string

text \<open>
  \<open>session\<close> is \<open>r.session\<close>; \<open>auth_user\<close> is the principal that
  \<open>django.contrib.auth.login\<close> binds to the session (flushing the session drops it);
  \<open>users\<close> and \<open>group_names\<close> are the tables behind \<open>User.objects\<close> and
  \<open>Group.objects\<close>.
\<close>

record state =
  session :: "string \<rightharpoonup> string"
  auth_user :: "user option"
  users :: "user list"
  group_names :: "string list"
  trace :: "event list"

section \<open>Helpers for Python's built-in behaviour\<close>

text \<open>Truth value of an optional string: \<open>None\<close> and the empty string are false.\<close>

fun truthy :: "string option \<Rightarrow> bool" where
  "truthy None = False"
| "truthy (Some s) = (s \<noteq> [])"

fun starts_with :: "string \<Rightarrow> string \<Rightarrow> bool" where
  "starts_with [] s = True"
| "starts_with (p # ps) [] = False"
| "starts_with (p # ps) (c # cs) = (p = c \<and> starts_with ps cs)"

text \<open>\<open>needle in haystack\<close> on strings.\<close>

fun contains :: "string \<Rightarrow> string \<Rightarrow> bool" where
  "contains needle [] = (needle = [])"
| "contains needle (c # cs) = (starts_with needle (c # cs) \<or> contains needle cs)"

text \<open>\<open>d[k][0]\<close> on a dictionary of lists: \<open>KeyError\<close> on a missing key,
  \<open>IndexError\<close> on an empty list.\<close>

definition first_of_key :: "(string \<rightharpoonup> 'a list) \<Rightarrow> string \<Rightarrow> error + 'a" where
  "first_of_key d k =
     (case d k of
        None \<Rightarrow> Inl KeyError
      | Some [] \<Rightarrow> Inl IndexError
      | Some (v # _) \<Rightarrow> Inr v)"

text \<open>Case folding of the ASCII letters, for the \<open>iexact\<close> lookup.\<close>

definition lower_char :: "char \<Rightarrow> char" where
  "lower_char c =
     (case map_of (zip ''ABCDEFGHIJKLMNOPQRSTUVWXYZ'' ''abcdefghijklmnopqrstuvwxyz'') c of
        Some l \<Rightarrow> l
      | None \<Rightarrow> c)"

definition lower :: "string \<Rightarrow> string" where
  "lower s = map lower_char s"

text \<open>\<open>str.strip()\<close>, for the ASCII whitespace characters.\<close>

definition is_space :: "char \<Rightarrow> bool" where
  "is_space c =
     (let n = (of_char c :: nat) in (9 \<le> n \<and> n \<le> 13) \<or> (28 \<le> n \<and> n \<le> 32))"

definition strip :: "string \<Rightarrow> string" where
  "strip s = rev (dropWhile is_space (rev (dropWhile is_space s)))"

definition emit :: "event \<Rightarrow> state \<Rightarrow> state" where
  "emit e st = st\<lparr>trace := trace st @ [e]\<rparr>"

text \<open>The events that read, write, flush or authenticate the session.\<close>

fun session_op :: "event \<Rightarrow> bool" where
  "session_op (SessionGet k) = True"
| "session_op (SessionSet k v) = True"
| "session_op SessionFlush = True"
| "session_op (Login name) = True"
| "session_op e = False"

section \<open>The functions of the module\<close>

definition get_current_domain :: "env \<Rightarrow> request \<Rightarrow> string" where
  "get_current_domain env r =
     (case ASSERTION_URL (SAML2_AUTH env) of
        Some u \<Rightarrow> u
      | None \<Rightarrow> (if is_secure r then ''https'' else ''http'') @ ''://'' @ get_host r)"

text \<open>\<open>get_reverse\<close>: the first of the given references that the resolver knows;
  the exception of the last line when none is. A single reference is passed as a
  one-element list, as the function itself wraps it.\<close>

fun get_reverse :: "env \<Rightarrow> viewref list \<Rightarrow> error + string" where
  "get_reverse env [] = Inl ReverseIssue"
| "get_reverse env (obj # objs) =
     (case reverse env obj of
        Some url \<Rightarrow> Inr url
      | None \<Rightarrow> get_reverse env objs)"

definition acs_refs :: "viewref list" where
  "acs_refs = [View ''acs'', UrlName ''acs'', UrlName ''django_saml2_auth:acs'']"

definition denied_refs :: "viewref list" where
  "denied_refs = [View ''denied'', UrlName ''denied'', UrlName ''django_saml2_auth:denied'']"

text \<open>\<open>_get_saml_client\<close>. \<open>Saml2Config().load\<close> (which reads the metadata) and
  the constructor \<open>Saml2Client\<close> raise on settings they cannot use; the function
  returns the client, which is the loaded configuration it is bound to.\<close>

definition get_saml_client :: "env \<Rightarrow> string \<Rightarrow> string option \<Rightarrow> string option \<Rightarrow> error + sp_config" where
  "get_saml_client env domain metadata_conf_url metadata_conf_raw =
     (let metadata =
            (if truthy metadata_conf_raw then Inline [the metadata_conf_raw]
             else (case METADATA_INLINE (SAML2_AUTH env) of
                     Some m \<Rightarrow> Inline [m]
                   | None \<Rightarrow> Remote [metadata_conf_url]))
      in case get_reverse env acs_refs of
           Inl e \<Rightarrow> Inl e
         | Inr path \<Rightarrow>
             (let acs_url = domain @ path;
                  saml_settings =
                    \<lparr> metadata = metadata,
                      assertion_consumer_service =
                        [(acs_url, BINDING_HTTP_REDIRECT), (acs_url, BINDING_HTTP_POST)],
                      allow_unsolicited = True,
                      authn_requests_signed = False,
                      logout_requests_signed = True,
                      want_assertions_signed = True,
                      want_response_signed = False,
                      name_id_format = NAME_ID_FORMAT (SAML2_AUTH env),
                      entityid = acs_url,
                      allow_unknown_attributes = False \<rparr>
              in case Saml2Config_load env saml_settings of
                   Some e \<Rightarrow> Inl e
                 | None \<Rightarrow>
                     (let spConfig = saml_settings\<lparr>allow_unknown_attributes := True\<rparr>
                      in case Saml2Client env spConfig of
                           Some e \<Rightarrow> Inl e
                         | None \<Rightarrow> Inr spConfig)))"

text \<open>The constructor call \<open>HttpResponseRedirect(target)\<close>: Django raises
  \<open>DisallowedRedirect\<close> when the target has a scheme other than http, https or ftp;
  \<open>None\<close> is rendered as a string without a scheme. The check is applied where the
  target comes from the session, the settings or the identity provider. The targets that
  \<open>get_reverse\<close> returns and the constant of line 267 are paths, which have no scheme,
  and are built with the constructor directly.\<close>

definition http_response_redirect :: "env \<Rightarrow> string option \<Rightarrow> error + response" where
  "http_response_redirect env target =
     (case target of
        None \<Rightarrow> Inr (HttpResponseRedirect None)
      | Some url \<Rightarrow>
          if allowed_redirect_scheme env url then Inr (HttpResponseRedirect (Some url))
          else Inl DisallowedRedirect)"

text \<open>\<open>HttpResponseRedirect(get_reverse([denied, "denied", "django_saml2_auth:denied"]))\<close>.\<close>

definition denied_response :: "env \<Rightarrow> state \<Rightarrow> (error + response) \<times> state" where
  "denied_response env st =
     (case get_reverse env denied_refs of
        Inl e \<Rightarrow> (Inl e, st)
      | Inr url \<Rightarrow> (Inr (HttpResponseRedirect (Some url)), st))"

text \<open>\<open>normalize_email\<close> of Django's user manager: an address with an \<open>@\<close> is
  stripped and the part after its last \<open>@\<close> is put in lower case; any other string
  is kept.\<close>

definition normalize_email :: "string \<Rightarrow> string" where
  "normalize_email mail =
     (if CHR ''@'' \<in> set mail then
        rev (dropWhile (\<lambda>c. c \<noteq> CHR ''@'') (rev (strip mail))) @
        lower (rev (takeWhile (\<lambda>c. c \<noteq> CHR ''@'') (rev (strip mail))))
      else mail)"

text \<open>\<open>_create_new_user\<close>. \<open>create_user\<close> raises \<open>ValueError\<close> for an empty
  user name, normalises the email (its normalisation of the user name is the identity on
  ASCII names) and stores the new row at once (user names are unique), with Django's
  defaults for the flags; \<open>Group.objects.get\<close> raises for an
  unknown group name; \<open>user.save()\<close> stores the final row.\<close>

definition profile_setting :: "env \<Rightarrow> (new_user_profile \<Rightarrow> 'a option) \<Rightarrow> 'a \<Rightarrow> 'a" where
  "profile_setting env field dflt =
     (case NEW_USER_PROFILE (SAML2_AUTH env) of
        None \<Rightarrow> dflt
      | Some p \<Rightarrow> (case field p of None \<Rightarrow> dflt | Some v \<Rightarrow> v))"

definition create_new_user ::
  "env \<Rightarrow> string \<Rightarrow> string \<Rightarrow> string \<Rightarrow> string \<Rightarrow> state \<Rightarrow> (error + user) \<times> state" where
  "create_new_user env uname mail firstname lastname st =
     (if uname = [] then (Inl ValueError, st)
      else if uname \<in> set (map username (users st)) then (Inl IntegrityError, st)
      else
        (let user0 = \<lparr> username = uname, email = normalize_email mail, first_name = [],
                        last_name = [], groups = [], is_active = True, is_staff = False,
                        is_superuser = False \<rparr>;
             st1 = emit (UserCreated uname) (st\<lparr>users := users st @ [user0]\<rparr>);
             wanted = profile_setting env USER_GROUPS []
         in if \<not> list_all (\<lambda>x. x \<in> set (group_names st1)) wanted
            then (Inl GroupDoesNotExist, st1)
            else
              (let user1 = user0\<lparr> first_name := firstname, last_name := lastname,
                                  groups := wanted,
                                  is_active := profile_setting env ACTIVE_STATUS True,
                                  is_staff := profile_setting env STAFF_STATUS True,
                                  is_superuser := profile_setting env SUPERUSER_STATUS False \<rparr>
               in (Inr user1, st1\<lparr>users := users st @ [user1]\<rparr>))))"

text \<open>\<open>settings.SAML2_AUTH.get("ATTRIBUTES_MAP", {}).get(logical, dflt)\<close>.\<close>

definition attribute_name :: "env \<Rightarrow> string \<Rightarrow> string \<Rightarrow> string" where
  "attribute_name env logical dflt =
     (case ATTRIBUTES_MAP (SAML2_AUTH env) of
        None \<Rightarrow> dflt
      | Some m \<Rightarrow> (case m logical of None \<Rightarrow> dflt | Some k \<Rightarrow> k))"

text \<open>\<open>user_identity[settings.SAML2_AUTH.get("ATTRIBUTES_MAP", {}).get(logical, dflt)][0]\<close>,
  the expression of lines 236 to 247.\<close>

definition identity_attribute :: "env \<Rightarrow> identity \<Rightarrow> string \<Rightarrow> string \<Rightarrow> error + string" where
  "identity_attribute env user_identity logical dflt =
     first_of_key user_identity (attribute_name env logical dflt)"

text \<open>\<open>User.objects.get(email__iexact=user_email)\<close>.\<close>

definition get_user_email_iexact :: "user list \<Rightarrow> string \<Rightarrow> error + user" where
  "get_user_email_iexact us mail =
     (case filter (\<lambda>u. lower (email u) = lower mail) us of
        [] \<Rightarrow> Inl DoesNotExist
      | [u] \<Rightarrow> Inr u
      | _ \<Rightarrow> Inl MultipleObjectsReturned)"

text \<open>Lines 254 and 255: the hook named by \<open>TRIGGER.BEFORE_LOGIN\<close>, when that
  setting is truthy, is imported and called with the identity.\<close>

definition before_login :: "env \<Rightarrow> identity \<Rightarrow> state \<Rightarrow> error option \<times> state" where
  "before_login env user_identity st =
     (let name = (case TRIGGER (SAML2_AUTH env) of None \<Rightarrow> None | Some t \<Rightarrow> BEFORE_LOGIN t)
      in if truthy name then
           (case import_string env (the name) of
              Inl e \<Rightarrow> (Some e, st)
            | Inr hook \<Rightarrow> (hook user_identity, emit (HookCalled (the name)) st))
         else (None, st))"

text \<open>The body of the \<open>try\<close> of lines 249 to 255. An exception of the hook
  leaves the \<open>try\<close> as one of the lookup does, so a hook that raises
  \<open>DoesNotExist\<close> reaches the same \<open>except\<close> branch.\<close>

definition find_target_user :: "env \<Rightarrow> identity \<Rightarrow> string \<Rightarrow> state \<Rightarrow> (error + user) \<times> state" where
  "find_target_user env user_identity user_email st =
     (case get_user_email_iexact (users st) user_email of
        Inl e \<Rightarrow> (Inl e, st)
      | Inr target_user \<Rightarrow>
          (case before_login env user_identity st of
             (Some e, st') \<Rightarrow> (Inl e, st')
           | (None, st') \<Rightarrow> (Inr target_user, st')))"

text \<open>
  \<open>acs\<close>, the assertion consumer handler, is one function in the source. It is
  given here in three parts, in the order of its lines: \<open>acs\<close> itself holds lines
  201 to 234 (flow state, SAML client, payload, validation, identity), \<open>acs_resolve\<close>
  lines 236 to 267 (attributes and user lookup) and \<open>acs_login\<close> lines 269 to 298
  (flush, activation check, login, redirect), each called where the source falls through
  to the next line.
\<close>

definition acs_login :: "env \<Rightarrow> string \<Rightarrow> user \<Rightarrow> state \<Rightarrow> (error + response) \<times> state" where
  "acs_login env next_url target_user st5 =
     (let st6 = emit SessionFlush (st5\<lparr>session := Map.empty, auth_user := None\<rparr>)
      in
      if is_active target_user then
        (let st7 = emit (Login (username target_user)) (st6\<lparr>auth_user := Some target_user\<rparr>)
         in case http_response_redirect env (Some next_url) of
              Inl e \<Rightarrow> (Inl e, st7)
            | Inr response \<Rightarrow> (Inr response, st7))
      else denied_response env st6)"

definition acs_resolve :: "env \<Rightarrow> string \<Rightarrow> identity \<Rightarrow> state \<Rightarrow> (error + response) \<times> state" where
  "acs_resolve env next_url user_identity st4 =
     (case identity_attribute env user_identity ''email'' ''Email'' of
        Inl e \<Rightarrow> (Inl e, st4)
      | Inr user_email \<Rightarrow>
     (case identity_attribute env user_identity ''username'' ''UserName'' of
        Inl e \<Rightarrow> (Inl e, st4)
      | Inr user_name \<Rightarrow>
     (case identity_attribute env user_identity ''first_name'' ''FirstName'' of
        Inl e \<Rightarrow> (Inl e, st4)
      | Inr user_first_name \<Rightarrow>
     (case identity_attribute env user_identity ''last_name'' ''LastName'' of
        Inl e \<Rightarrow> (Inl e, st4)
      | Inr user_last_name \<Rightarrow>
     (case find_target_user env user_identity user_email st4 of
        (Inl e, st5) \<Rightarrow>
          if e = DoesNotExist then
            (Inr (HttpResponseRedirect (Some ''/login/?sso_login_no_user=true'')),
             emit (LogWarning (''SSO user was not found: '' @ user_email)) st5)
          else (Inl e, st5)
      | (Inr target_user, st5) \<Rightarrow> acs_login env next_url target_user st5)))))"

text \<open>The default of a \<open>get\<close> is a Python argument, so
  \<open>get_reverse("admin:index")\<close> is evaluated before the session is read for
  \<open>login_next_url\<close>, whether or not the default is used.\<close>

definition acs :: "env \<Rightarrow> request \<Rightarrow> state \<Rightarrow> (error + response) \<times> state" where
  "acs env r st0 =
     (let saml_metadata_conf_url = session st0 ''saml_metadata_conf_url'';
          st1 = emit (SessionGet ''saml_metadata_conf_url'') st0;
          saml_metadata_conf_raw = session st1 ''saml_metadata_conf_raw'';
          st2 = emit (SessionGet ''saml_metadata_conf_raw'') st1
      in
      if \<not> truthy saml_metadata_conf_url \<and> \<not> truthy saml_metadata_conf_raw then
        (let st3 = emit (LogInfo ''No saml_metadata_conf found'') st2
         in case get_reverse env [UrlName ''sso_login''] of
              Inl e \<Rightarrow> (Inl e, st3)
            | Inr url \<Rightarrow> (Inr (HttpResponseRedirect (Some url)), st3))
      else
      case get_saml_client env (get_current_domain env r)
             saml_metadata_conf_url saml_metadata_conf_raw of
        Inl e \<Rightarrow> (Inl e, st2)
      | Inr saml_client \<Rightarrow>
      (let resp = POST r ''SAMLResponse''
       in
       case get_reverse env [UrlName ''admin:index''] of
         Inl e \<Rightarrow> (Inl e, st2)
       | Inr admin_index \<Rightarrow>
       (let dflt = (case DEFAULT_NEXT_URL (SAML2_AUTH env) of
                      Some d \<Rightarrow> d
                    | None \<Rightarrow> admin_index);
            next_url = (case session st2 ''login_next_url'' of
                          Some v \<Rightarrow> v
                        | None \<Rightarrow> dflt);
            st3 = emit (SessionGet ''login_next_url'') st2
        in
        if \<not> truthy resp then denied_response env st3
        else
        (let st4 = emit (ParseResponse (the resp)) st3
         in
         case parse_authn_request_response env saml_client (the resp) BINDING_HTTP_POST of
           Inl e \<Rightarrow> (Inl e, st4)
         | Inr None \<Rightarrow> denied_response env st4
         | Inr (Some authn_response) \<Rightarrow>
         (case get_identity authn_response of
            None \<Rightarrow> denied_response env st4
          | Some user_identity \<Rightarrow> acs_resolve env next_url user_identity st4)))))"

text \<open>\<open>r.GET.get("next", settings.SAML2_AUTH.get("DEFAULT_NEXT_URL",
  get_reverse("admin:index")))\<close>, the expression of lines 309 and 319.\<close>

definition requested_next :: "env \<Rightarrow> request \<Rightarrow> error + string" where
  "requested_next env r =
     (case get_reverse env [UrlName ''admin:index''] of
        Inl e \<Rightarrow> Inl e
      | Inr admin_index \<Rightarrow>
          Inr (case GET r ''next'' of
                 Some v \<Rightarrow> v
               | None \<Rightarrow> (case DEFAULT_NEXT_URL (SAML2_AUTH env) of
                            Some d \<Rightarrow> d
                          | None \<Rightarrow> admin_index)))"

text \<open>The body of the \<open>try\<close> of lines 313 to 317; every exception it raises is
  caught by the bare \<open>except\<close>.\<close>

definition inner_next :: "env \<Rightarrow> string \<Rightarrow> error + string" where
  "inner_next env next_url =
     (if contains ''next='' (unquote env next_url) then
        (case urlparse_query env (unquote env next_url) of
           Inl e \<Rightarrow> Inl e
         | Inr query \<Rightarrow> first_of_key (parse_qs env query) ''next'')
      else Inr next_url)"

text \<open>The loop of lines 349 to 352: the value of the first \<open>Location\<close> header.\<close>

fun find_location :: "(string \<times> string) list \<Rightarrow> string option" where
  "find_location [] = None"
| "find_location ((key, val) # headers) =
     (if key = ''Location'' then Some val else find_location headers)"

text \<open>\<open>signin\<close>, the SSO initiation handler.\<close>

definition signin :: "env \<Rightarrow> request \<Rightarrow> state \<Rightarrow> (error + response) \<times> state" where
  "signin env r st0 =
     (case requested_next env r of
        Inl e \<Rightarrow> (Inl e, st0)
      | Inr next_url0 \<Rightarrow>
      (case (case inner_next env next_url0 of
               Inr v \<Rightarrow> Inr v
             | Inl _ \<Rightarrow> requested_next env r) of
         Inl e \<Rightarrow> (Inl e, st0)
       | Inr next_url \<Rightarrow>
       (let url_ok = (if django_version_ge_2 env
                      then url_has_allowed_host_and_scheme env next_url None
                      else url_has_allowed_host_and_scheme env next_url None)
        in
        if \<not> url_ok then denied_response env st0
        else
        (let st1 = emit (SessionSet ''login_next_url'' next_url)
                     (st0\<lparr>session := (session st0)(''login_next_url'' \<mapsto> next_url)\<rparr>);
             domain = get_current_domain env r;
             metadata_conf_url = session st1 ''saml_metadata_conf_url'';
             st2 = emit (SessionGet ''saml_metadata_conf_url'') st1;
             metadata_conf_raw = session st2 ''saml_metadata_conf_raw'';
             st3 = emit (SessionGet ''saml_metadata_conf_raw'') st2
         in
         case get_saml_client env domain metadata_conf_url metadata_conf_raw of
           Inl e \<Rightarrow> (Inl e, st3)
         | Inr saml_client \<Rightarrow>
             (case prepare_for_authenticate env saml_client of
                Inl e \<Rightarrow> (Inl e, st3)
              | Inr headers \<Rightarrow>
                  (case http_response_redirect env (find_location headers) of
                     Inl e \<Rightarrow> (Inl e, st3)
                   | Inr response \<Rightarrow> (Inr response, st3)))))))"

section \<open>A concrete deployment\<close>

text \<open>
  One deployment on which the theorems below are exercised: the package's own routes and
  the project's \<open>admin:index\<close> and \<open>sso_login\<close> routes resolve, only paths on
  the same host are safe redirect targets, the configuration loads unless it has no
  metadata source at all, the identity provider answers the payload
  \<open>signed-assertion\<close> with a validated identity, and one local user exists.
\<close>

definition example_identity :: identity where
  "example_identity =
     [''Email'' \<mapsto> [''A@B.com'', ''other@b.com''], ''UserName'' \<mapsto> [''a''],
      ''FirstName'' \<mapsto> [''A''], ''LastName'' \<mapsto> [''B'']]"

definition example_settings :: saml2_auth where
  "example_settings =
     \<lparr> ASSERTION_URL = None, METADATA_INLINE = None, DEFAULT_NEXT_URL = None,
       NAME_ID_FORMAT = None, ATTRIBUTES_MAP = None,
       TRIGGER = Some \<lparr> BEFORE_LOGIN = None, TRIGGER_CREATE_USER = None \<rparr>,
       CREATE_USER = None, NEW_USER_PROFILE = None \<rparr>"

definition example_env :: env where
  "example_env =
     \<lparr> SAML2_AUTH = example_settings,
       django_version_ge_2 = True,
       reverse = [View ''acs'' \<mapsto> ''/sso/acs/'', View ''denied'' \<mapsto> ''/sso/denied/'',
                  UrlName ''admin:index'' \<mapsto> ''/admin/'',
                  UrlName ''sso_login'' \<mapsto> ''/sso/login/''],
       url_has_allowed_host_and_scheme =
         (\<lambda>url hosts. starts_with ''/'' url \<and> \<not> starts_with ''//'' url),
       allowed_redirect_scheme =
         (\<lambda>url. starts_with ''/'' url \<or> starts_with ''http://'' url \<or>
                starts_with ''https://'' url \<or> starts_with ''ftp://'' url),
       unquote = (\<lambda>s. s),
       urlparse_query = (\<lambda>s. Inr (drop 1 (dropWhile (\<lambda>c. c \<noteq> CHR ''?'') s))),
       parse_qs =
         (\<lambda>q. if starts_with ''next='' q then [''next'' \<mapsto> [drop 5 q]] else Map.empty),
       Saml2Config_load =
         (\<lambda>cfg. if metadata cfg = Remote [None] then Some SamlError else None),
       Saml2Client = (\<lambda>cfg. None),
       parse_authn_request_response =
         (\<lambda>cfg resp b. if resp = ''signed-assertion''
                        then Inr (Some \<lparr> get_identity = Some example_identity \<rparr>)
                        else Inr None),
       prepare_for_authenticate =
         (\<lambda>cfg. Inr [(''Content-Type'', ''text/html''),
                      (''Location'', ''https://idp.example/sso'')]),
       import_string = (\<lambda>name. Inl ImportError) \<rparr>"

text \<open>A deployment with its provisioning settings replaced: the \<open>CREATE_USER\<close>
  switch, the \<open>NEW_USER_PROFILE\<close> defaults and the \<open>CREATE_USER\<close> hook of an
  existing \<open>TRIGGER\<close> entry.\<close>

definition with_provisioning ::
  "env \<Rightarrow> bool option \<Rightarrow> new_user_profile option \<Rightarrow> string option \<Rightarrow> env" where
  "with_provisioning env create profile hook =
     env\<lparr> SAML2_AUTH := (SAML2_AUTH env)
       \<lparr> TRIGGER := map_option (\<lambda>t. t\<lparr> TRIGGER_CREATE_USER := hook \<rparr>) (TRIGGER (SAML2_AUTH env)),
         CREATE_USER := create,
         NEW_USER_PROFILE := profile \<rparr> \<rparr>"

text \<open>The example deployment with every provisioning setting switched on.\<close>

definition example_profile :: new_user_profile where
  "example_profile =
     \<lparr> USER_GROUPS = Some [''staff''], ACTIVE_STATUS = Some True,
       STAFF_STATUS = Some False, SUPERUSER_STATUS = Some False \<rparr>"

definition provisioning_env :: env where
  "provisioning_env =
     with_provisioning example_env (Some True) (Some example_profile) (Some ''hooks.created'')"

definition example_user :: user where
  "example_user =
     \<lparr> username = ''a'', email = ''a@b.com'', first_name = ''A'', last_name = ''B'',
       groups = [], is_active = True, is_staff = False, is_superuser = False \<rparr>"

definition example_state :: state where
  "example_state =
     \<lparr> session = [''saml_metadata_conf_raw'' \<mapsto> ''<EntityDescriptor/>'',
                  ''login_next_url'' \<mapsto> ''/dashboard''],
       auth_user = None, users = [example_user], group_names = [''staff''], trace = [] \<rparr>"

definition example_post :: request where
  "example_post =
     \<lparr> GET = Map.empty, POST = [''SAMLResponse'' \<mapsto> ''signed-assertion''],
       is_secure = True, get_host = ''sp.example'' \<rparr>"

definition example_get :: "string \<Rightarrow> request" where
  "example_get next_value =
     \<lparr> GET = [''next'' \<mapsto> next_value], POST = Map.empty,
       is_secure = True, get_host = ''sp.example'' \<rparr>"

text \<open>The configuration that \<open>_get_saml_client\<close> builds for this deployment from the
  flow state of \<open>example_state\<close>.\<close>

definition example_client :: sp_config where
  "example_client =
     \<lparr> metadata = Inline [''<EntityDescriptor/>''],
       assertion_consumer_service =
         [(''https://sp.example/sso/acs/'', BINDING_HTTP_REDIRECT),
          (''https://sp.example/sso/acs/'', BINDING_HTTP_POST)],
       allow_unsolicited = True,
       authn_requests_signed = False,
       logout_requests_signed = True,
       want_assertions_signed = True,
       want_response_signed = False,
       name_id_format = None,
       entityid = ''https://sp.example/sso/acs/'',
       allow_unknown_attributes = True \<rparr>"

text \<open>An identity without the attribute \<open>Email\<close>, and the deployment whose identity
  provider asserts it.\<close>

definition incomplete_identity :: identity where
  "incomplete_identity =
     [''UserName'' \<mapsto> [''a'', ''alias''], ''FirstName'' \<mapsto> [''A''], ''LastName'' \<mapsto> [''B'']]"

definition incomplete_env :: env where
  "incomplete_env =
     example_env\<lparr> parse_authn_request_response :=
       (\<lambda>cfg resp b. Inr (Some \<lparr> get_identity = Some incomplete_identity \<rparr>)) \<rparr>"

text \<open>The row that \<open>_create_new_user\<close> stores for a new user \<open>n\<close> under
  \<open>provisioning_env\<close>.\<close>

definition example_created :: user where
  "example_created =
     \<lparr> username = ''n'', email = ''n@b.com'', first_name = ''N'', last_name = ''M'',
       groups = [''staff''], is_active = True, is_staff = False, is_superuser = False \<rparr>"

section \<open>Properties\<close>

lemmas example_defs = example_identity_def example_settings_def example_env_def
  provisioning_env_def with_provisioning_def example_profile_def example_user_def example_state_def example_post_def example_get_def
  example_client_def incomplete_identity_def incomplete_env_def

lemmas model_defs = acs_def acs_resolve_def acs_login_def signin_def requested_next_def
  inner_next_def Let_def emit_def denied_response_def find_target_user_def
  before_login_def get_user_email_iexact_def identity_attribute_def attribute_name_def
  first_of_key_def get_saml_client_def get_current_domain_def acs_refs_def denied_refs_def
  lower_def lower_char_def http_response_redirect_def

lemma denied_response_state: "snd (denied_response env st) = st"
  by (simp add: denied_response_def split: sum.split)

lemma before_login_state:
  "before_login env i st = (res, st') \<Longrightarrow>
     st' = st\<lparr>trace := trace st'\<rparr> \<and>
     (trace st' = trace st \<or> (\<exists>n. trace st' = trace st @ [HookCalled n]))"
  by (auto simp: before_login_def Let_def emit_def split: if_splits sum.splits)

lemma find_target_user_state:
  "find_target_user env i e st = (res, st') \<Longrightarrow>
     st' = st\<lparr>trace := trace st'\<rparr> \<and>
     (trace st' = trace st \<or> (\<exists>n. trace st' = trace st @ [HookCalled n]))"
  unfolding find_target_user_def
  by (auto split: sum.splits option.splits prod.splits dest: before_login_state)

lemma acs_login_state:
  "acs_login env next_url u st = (res, st') \<Longrightarrow>
     session st' = Map.empty \<and> users st' = users st \<and> group_names st' = group_names st \<and>
     (if is_active u
      then res = http_response_redirect env (Some next_url) \<and> auth_user st' = Some u \<and>
           trace st' = trace st @ [SessionFlush, Login (username u)]
      else res = fst (denied_response env st) \<and> auth_user st' = None \<and>
           trace st' = trace st @ [SessionFlush])"
  by (auto simp: acs_login_def Let_def emit_def denied_response_def split: sum.splits)

lemma acs_resolve_session_ops:
  assumes "acs_resolve env next_url ident st = (res, st')"
    and "Login name \<in> set (trace st')" and "Login name \<notin> set (trace st)"
  shows "filter session_op (trace st') =
           filter session_op (trace st) @ [SessionFlush, Login name]"
  using assms unfolding acs_resolve_def
  by (auto split: sum.splits prod.splits if_splits simp: emit_def
        dest!: find_target_user_state acs_login_state)

lemma acs_resolve_users:
  assumes "acs_resolve env next_url ident st = (res, st')"
  shows "users st' = users st"
  using assms unfolding acs_resolve_def
  by (auto split: sum.splits prod.splits if_splits simp: emit_def
        dest!: find_target_user_state acs_login_state)

text \<open>Claim C6. In every invocation of \<open>acs\<close> that logs a user in, the operations on
  the session are, in this order: the read of the metadata URL, the read of the raw
  metadata, the read of \<open>login_next_url\<close>, one flush, the login.\<close>

theorem acs_session_sequencing:
  assumes "trace st = []" and "Login name \<in> set (trace (snd (acs env r st)))"
  shows "filter session_op (trace (snd (acs env r st))) =
           [SessionGet ''saml_metadata_conf_url'', SessionGet ''saml_metadata_conf_raw'',
            SessionGet ''login_next_url'', SessionFlush, Login name]"
proof -
  obtain res st' where run: "acs env r st = (res, st')"
    by (cases "acs env r st")
  with assms(2) have login: "Login name \<in> set (trace st')"
    by simp
  from run login assms(1) show ?thesis
    unfolding acs_def Let_def
    by (auto simp: emit_def denied_response_def
          split: sum.splits option.splits if_splits
          dest!: acs_resolve_session_ops)
qed

lemma acs_reaches_resolve:
  assumes flow: "truthy (session st ''saml_metadata_conf_url'') \<or>
                 truthy (session st ''saml_metadata_conf_raw'')"
    and client: "get_saml_client env (get_current_domain env r)
                   (session st ''saml_metadata_conf_url'')
                   (session st ''saml_metadata_conf_raw'') = Inr client"
    and admin: "get_reverse env [UrlName ''admin:index''] = Inr admin_index"
    and payload: "POST r ''SAMLResponse'' = Some payload" "payload \<noteq> []"
    and valid: "parse_authn_request_response env client payload BINDING_HTTP_POST =
                  Inr (Some authn)"
    and ident: "get_identity authn = Some ident"
  shows "acs env r st =
           acs_resolve env
             (case session st ''login_next_url'' of
                Some v \<Rightarrow> v
              | None \<Rightarrow> (case DEFAULT_NEXT_URL (SAML2_AUTH env) of
                           Some d \<Rightarrow> d
                         | None \<Rightarrow> admin_index))
             ident
             (st\<lparr>trace := trace st @
                   [SessionGet ''saml_metadata_conf_url'', SessionGet ''saml_metadata_conf_raw'',
                    SessionGet ''login_next_url'', ParseResponse payload]\<rparr>)"
proof -
  from flow have active:
    "(\<not> truthy (session st ''saml_metadata_conf_url'') \<and>
      \<not> truthy (session st ''saml_metadata_conf_raw'')) = False"
    by blast
  show ?thesis
    using client admin payload valid ident
    by (simp add: acs_def Let_def emit_def active del: get_reverse.simps)
qed

text \<open>Claim C3. When the session holds neither a metadata URL nor raw inline metadata
  (absent or empty), and the route \<open>sso_login\<close> resolves, \<open>acs\<close> returns a
  redirect to that route. The state is unchanged but for the trace, which holds the two
  session reads and the log entry only: the assertion is not parsed and no login takes
  place.\<close>

theorem acs_no_active_flow:
  assumes "\<not> truthy (session st ''saml_metadata_conf_url'')"
    and "\<not> truthy (session st ''saml_metadata_conf_raw'')"
    and "get_reverse env [UrlName ''sso_login''] = Inr url"
  shows "acs env r st =
           (Inr (HttpResponseRedirect (Some url)),
            st\<lparr>trace := trace st @
                  [SessionGet ''saml_metadata_conf_url'',
                   SessionGet ''saml_metadata_conf_raw'',
                   LogInfo ''No saml_metadata_conf found'']\<rparr>)"
  using assms by (simp add: acs_def Let_def emit_def del: get_reverse.simps)

text \<open>The theorem of C3 at the example deployment with an empty session.\<close>

theorem acs_no_active_flow_witness:
  "acs example_env example_post (example_state\<lparr>session := Map.empty\<rparr>) =
     (Inr (HttpResponseRedirect (Some ''/sso/login/'')),
      example_state\<lparr>session := Map.empty,
                     trace := [SessionGet ''saml_metadata_conf_url'',
                               SessionGet ''saml_metadata_conf_raw'',
                               LogInfo ''No saml_metadata_conf found'']\<rparr>)"
  using acs_no_active_flow [of "example_state\<lparr>session := Map.empty\<rparr>" example_env
      "''/sso/login/''" example_post]
  by (simp add: example_env_def example_state_def)

text \<open>Claim C5. When the assertion is validated, the four attributes are extracted and no
  local user has the asserted email up to letter case, \<open>acs\<close> returns a redirect to
  \<open>/login/?sso_login_no_user=true\<close>. The state is unchanged but for the trace, which
  ends with the warning that names the email: no user is created, the session is
  untouched and no login takes place.\<close>

theorem acs_no_matching_user:
  assumes flow: "truthy (session st ''saml_metadata_conf_url'') \<or>
                 truthy (session st ''saml_metadata_conf_raw'')"
    and client: "get_saml_client env (get_current_domain env r)
                   (session st ''saml_metadata_conf_url'')
                   (session st ''saml_metadata_conf_raw'') = Inr client"
    and admin: "get_reverse env [UrlName ''admin:index''] = Inr admin_index"
    and payload: "POST r ''SAMLResponse'' = Some payload" "payload \<noteq> []"
    and valid: "parse_authn_request_response env client payload BINDING_HTTP_POST =
                  Inr (Some authn)"
    and ident: "get_identity authn = Some ident"
    and attrs: "identity_attribute env ident ''email'' ''Email'' = Inr user_email"
      "identity_attribute env ident ''username'' ''UserName'' = Inr user_name"
      "identity_attribute env ident ''first_name'' ''FirstName'' = Inr user_first_name"
      "identity_attribute env ident ''last_name'' ''LastName'' = Inr user_last_name"
    and nomatch: "\<forall>u \<in> set (users st). lower (email u) \<noteq> lower user_email"
  shows "acs env r st =
           (Inr (HttpResponseRedirect (Some ''/login/?sso_login_no_user=true'')),
            st\<lparr>trace := trace st @
                  [SessionGet ''saml_metadata_conf_url'', SessionGet ''saml_metadata_conf_raw'',
                   SessionGet ''login_next_url'', ParseResponse payload,
                   LogWarning (''SSO user was not found: '' @ user_email)]\<rparr>)"
proof -
  from nomatch have "filter (\<lambda>u. lower (email u) = lower user_email) (users st) = []"
    by (simp add: filter_empty_conv)
  then have "get_user_email_iexact (users st) user_email = Inl DoesNotExist"
    by (simp add: get_user_email_iexact_def)
  then show ?thesis
    using attrs
    by (simp add: acs_reaches_resolve [OF flow client admin payload valid ident]
          acs_resolve_def find_target_user_def emit_def)
qed

text \<open>The theorem of C5 at the example deployment when the only local user has another
  email.\<close>

theorem acs_no_matching_user_witness:
  "acs example_env example_post
     (example_state\<lparr>users := [example_user\<lparr>email := ''c@d.com''\<rparr>]\<rparr>) =
     (Inr (HttpResponseRedirect (Some ''/login/?sso_login_no_user=true'')),
      example_state\<lparr>users := [example_user\<lparr>email := ''c@d.com''\<rparr>],
                     trace := [SessionGet ''saml_metadata_conf_url'',
                               SessionGet ''saml_metadata_conf_raw'',
                               SessionGet ''login_next_url'',
                               ParseResponse ''signed-assertion'',
                               LogWarning ''SSO user was not found: A@B.com'']\<rparr>)"
  using acs_no_matching_user
    [of "example_state\<lparr>users := [example_user\<lparr>email := ''c@d.com''\<rparr>]\<rparr>"
      example_env example_post example_client
      "''/admin/''" "''signed-assertion''" "\<lparr> get_identity = Some example_identity \<rparr>"
      example_identity "''A@B.com''" "''a''" "''A''" "''B''"]
  by (simp add: example_defs Let_def get_saml_client_def get_current_domain_def acs_refs_def
      identity_attribute_def attribute_name_def first_of_key_def lower_def lower_char_def)

text \<open>The theorem of C6 at the example deployment.\<close>

theorem acs_session_sequencing_witness:
  "Login ''a'' \<in> set (trace (snd (acs example_env example_post example_state))) \<and>
   filter session_op (trace (snd (acs example_env example_post example_state))) =
     [SessionGet ''saml_metadata_conf_url'', SessionGet ''saml_metadata_conf_raw'',
      SessionGet ''login_next_url'', SessionFlush, Login ''a'']"
proof -
  have login: "Login ''a'' \<in> set (trace (snd (acs example_env example_post example_state)))"
    by (simp add: example_defs model_defs)
  have start: "trace example_state = []"
    by (simp add: example_state_def)
  from login acs_session_sequencing [OF start login] show ?thesis
    by simp
qed

lemma before_login_result:
  "fst (before_login env ident st) = fst (before_login env ident st')"
  by (simp add: before_login_def Let_def split: sum.split)

text \<open>Claim C2, amended. Every invocation of \<open>acs\<close> that reads its flow state, validates
  the assertion, extracts the four attributes, finds a local user for the asserted email
  and passes the before-login hook (none is configured, or it returns normally) flushes
  the session before it returns, whether it then ends in success (active user: the
  redirect to the stored target, or the exception of that redirect for a target with a
  forbidden scheme) or in denial (inactive user).\<close>

theorem acs_flushes_once_user_found:
  assumes flow: "truthy (session st ''saml_metadata_conf_url'') \<or>
                 truthy (session st ''saml_metadata_conf_raw'')"
    and client: "get_saml_client env (get_current_domain env r)
                   (session st ''saml_metadata_conf_url'')
                   (session st ''saml_metadata_conf_raw'') = Inr client"
    and admin: "get_reverse env [UrlName ''admin:index''] = Inr admin_index"
    and payload: "POST r ''SAMLResponse'' = Some payload" "payload \<noteq> []"
    and valid: "parse_authn_request_response env client payload BINDING_HTTP_POST =
                  Inr (Some authn)"
    and ident: "get_identity authn = Some ident"
    and attrs: "identity_attribute env ident ''email'' ''Email'' = Inr user_email"
      "identity_attribute env ident ''username'' ''UserName'' = Inr user_name"
      "identity_attribute env ident ''first_name'' ''FirstName'' = Inr user_first_name"
      "identity_attribute env ident ''last_name'' ''LastName'' = Inr user_last_name"
    and found: "get_user_email_iexact (users st) user_email = Inr target_user"
    and hook: "fst (before_login env ident st) = None"
  shows "session (snd (acs env r st)) = Map.empty \<and>
         SessionFlush \<in> set (trace (snd (acs env r st))) \<and>
         fst (acs env r st) =
           (if is_active target_user
            then http_response_redirect env
                   (Some (case session st ''login_next_url'' of
                            Some v \<Rightarrow> v
                          | None \<Rightarrow> (case DEFAULT_NEXT_URL (SAML2_AUTH env) of
                                       Some d \<Rightarrow> d
                                     | None \<Rightarrow> admin_index)))
            else fst (denied_response env st))"
proof -
  let ?st4 = "st\<lparr>trace := trace st @
                  [SessionGet ''saml_metadata_conf_url'', SessionGet ''saml_metadata_conf_raw'',
                   SessionGet ''login_next_url'', ParseResponse payload]\<rparr>"
  let ?next = "case session st ''login_next_url'' of
                 Some v \<Rightarrow> v
               | None \<Rightarrow> (case DEFAULT_NEXT_URL (SAML2_AUTH env) of
                            Some d \<Rightarrow> d
                          | None \<Rightarrow> admin_index)"
  obtain h st5 where bl: "before_login env ident ?st4 = (h, st5)"
    by (cases "before_login env ident ?st4")
  have "h = None"
    using hook before_login_result [of env ident ?st4 st] bl by simp
  with bl found have ftu: "find_target_user env ident user_email ?st4 = (Inr target_user, st5)"
    by (simp add: find_target_user_def)
  have run: "acs env r st = acs_login env ?next target_user st5"
    using attrs ftu
    by (simp add: acs_reaches_resolve [OF flow client admin payload valid ident]
          acs_resolve_def)
  obtain res st' where fin: "acs_login env ?next target_user st5 = (res, st')"
    by (cases "acs_login env ?next target_user st5")
  have den: "fst (denied_response env st5) = fst (denied_response env st)"
    by (simp add: denied_response_def split: sum.split)
  from acs_login_state [OF fin] den show ?thesis
    by (auto simp: run fin split: if_splits)
qed

lemma identity_attribute_missing:
  "ident (attribute_name env logical dflt) = None \<Longrightarrow>
     identity_attribute env ident logical dflt = Inl KeyError"
  by (simp add: identity_attribute_def first_of_key_def)

lemma identity_attribute_error:
  "identity_attribute env ident logical dflt = Inl e \<Longrightarrow> e = KeyError \<or> e = IndexError"
  by (auto simp: identity_attribute_def first_of_key_def split: option.splits list.splits)

lemma identity_attribute_first:
  "ident (attribute_name env logical dflt) = Some (v # vs) \<Longrightarrow>
     identity_attribute env ident logical dflt = Inr v"
  by (simp add: identity_attribute_def first_of_key_def)

lemma acs_resolve_missing:
  assumes "ident (attribute_name env ''email'' ''Email'') = None \<or>
           ident (attribute_name env ''username'' ''UserName'') = None \<or>
           ident (attribute_name env ''first_name'' ''FirstName'') = None \<or>
           ident (attribute_name env ''last_name'' ''LastName'') = None"
  shows "acs_resolve env next_url ident st = (Inl KeyError, st) \<or>
         acs_resolve env next_url ident st = (Inl IndexError, st)"
  using assms unfolding acs_resolve_def
  by (auto split: sum.splits dest: identity_attribute_error
        simp: identity_attribute_missing)

lemma acs_resolve_missing_email:
  assumes "ident (attribute_name env ''email'' ''Email'') = None"
  shows "acs_resolve env next_url ident st = (Inl KeyError, st)"
  using assms by (simp add: acs_resolve_def identity_attribute_missing)

lemma acs_resolve_present:
  assumes "ident (attribute_name env ''email'' ''Email'') = Some (user_email # emails)"
    and "ident (attribute_name env ''username'' ''UserName'') = Some (user_name # names)"
    and "ident (attribute_name env ''first_name'' ''FirstName'') =
           Some (user_first_name # first_names)"
    and "ident (attribute_name env ''last_name'' ''LastName'') =
           Some (user_last_name # last_names)"
  shows "acs_resolve env next_url ident st =
           (case find_target_user env ident user_email st of
              (Inl e, st5) \<Rightarrow>
                if e = DoesNotExist then
                  (Inr (HttpResponseRedirect (Some ''/login/?sso_login_no_user=true'')),
                   emit (LogWarning (''SSO user was not found: '' @ user_email)) st5)
                else (Inl e, st5)
            | (Inr target_user, st5) \<Rightarrow> acs_login env next_url target_user st5)"
  using assms by (simp add: acs_resolve_def identity_attribute_first)

text \<open>Claim C7. For an invocation of \<open>acs\<close> that has a validated identity: when the
  identity lacks one of the four attributes under the configured attribute names,
  \<open>acs\<close> raises a lookup error (\<open>KeyError\<close>, or \<open>IndexError\<close> when an earlier
  attribute has an empty value list; \<open>KeyError\<close> when the email itself is missing)
  and leaves the session and the authenticated principal as they were. When the four
  attributes are present, \<open>acs\<close> goes on with the first value of each value list: the
  user is looked up, and the warning of the unmatched case is written, with the first
  email \<open>user_email\<close>, whatever the further values \<open>emails\<close> are.\<close>

theorem acs_attribute_extraction:
  assumes flow: "truthy (session st ''saml_metadata_conf_url'') \<or>
                 truthy (session st ''saml_metadata_conf_raw'')"
    and client: "get_saml_client env (get_current_domain env r)
                   (session st ''saml_metadata_conf_url'')
                   (session st ''saml_metadata_conf_raw'') = Inr client"
    and admin: "get_reverse env [UrlName ''admin:index''] = Inr admin_index"
    and payload: "POST r ''SAMLResponse'' = Some payload" "payload \<noteq> []"
    and valid: "parse_authn_request_response env client payload BINDING_HTTP_POST =
                  Inr (Some authn)"
    and ident: "get_identity authn = Some ident"
  shows "(ident (attribute_name env ''email'' ''Email'') = None \<or>
          ident (attribute_name env ''username'' ''UserName'') = None \<or>
          ident (attribute_name env ''first_name'' ''FirstName'') = None \<or>
          ident (attribute_name env ''last_name'' ''LastName'') = None \<longrightarrow>
            (fst (acs env r st) = Inl KeyError \<or> fst (acs env r st) = Inl IndexError) \<and>
            session (snd (acs env r st)) = session st \<and>
            auth_user (snd (acs env r st)) = auth_user st) \<and>
         (ident (attribute_name env ''email'' ''Email'') = None \<longrightarrow>
            fst (acs env r st) = Inl KeyError) \<and>
         (ident (attribute_name env ''email'' ''Email'') = Some (user_email # emails) \<and>
          ident (attribute_name env ''username'' ''UserName'') = Some (user_name # names) \<and>
          ident (attribute_name env ''first_name'' ''FirstName'') =
            Some (user_first_name # first_names) \<and>
          ident (attribute_name env ''last_name'' ''LastName'') =
            Some (user_last_name # last_names) \<longrightarrow>
            acs env r st =
              (case find_target_user env ident user_email
                      (st\<lparr>trace := trace st @
                            [SessionGet ''saml_metadata_conf_url'',
                             SessionGet ''saml_metadata_conf_raw'',
                             SessionGet ''login_next_url'', ParseResponse payload]\<rparr>) of
                 (Inl e, st5) \<Rightarrow>
                   if e = DoesNotExist then
                     (Inr (HttpResponseRedirect (Some ''/login/?sso_login_no_user=true'')),
                      emit (LogWarning (''SSO user was not found: '' @ user_email)) st5)
                   else (Inl e, st5)
               | (Inr target_user, st5) \<Rightarrow>
                   acs_login env
                     (case session st ''login_next_url'' of
                        Some v \<Rightarrow> v
                      | None \<Rightarrow> (case DEFAULT_NEXT_URL (SAML2_AUTH env) of
                                   Some d \<Rightarrow> d
                                 | None \<Rightarrow> admin_index))
                     target_user st5))"
proof -
  note reach = acs_reaches_resolve [OF flow client admin payload valid ident]
  let ?st4 = "st\<lparr>trace := trace st @
                  [SessionGet ''saml_metadata_conf_url'', SessionGet ''saml_metadata_conf_raw'',
                   SessionGet ''login_next_url'', ParseResponse payload]\<rparr>"
  have missing:
    "(fst (acs env r st) = Inl KeyError \<or> fst (acs env r st) = Inl IndexError) \<and>
     session (snd (acs env r st)) = session st \<and>
     auth_user (snd (acs env r st)) = auth_user st"
    if "ident (attribute_name env ''email'' ''Email'') = None \<or>
        ident (attribute_name env ''username'' ''UserName'') = None \<or>
        ident (attribute_name env ''first_name'' ''FirstName'') = None \<or>
        ident (attribute_name env ''last_name'' ''LastName'') = None"
  proof -
    from acs_resolve_missing [OF that]
    have "acs env r st = (Inl KeyError, ?st4) \<or> acs env r st = (Inl IndexError, ?st4)"
      unfolding reach .
    then show ?thesis by auto
  qed
  have email: "fst (acs env r st) = Inl KeyError"
    if "ident (attribute_name env ''email'' ''Email'') = None"
    unfolding reach using that by (simp add: acs_resolve_missing_email)
  from missing email show ?thesis
    unfolding reach by (auto simp: acs_resolve_present)
qed

lemma example_flow:
  "truthy (session example_state ''saml_metadata_conf_url'') \<or>
   truthy (session example_state ''saml_metadata_conf_raw'')"
  by (simp add: example_state_def)

lemma example_client_built:
  "get_saml_client example_env (get_current_domain example_env example_post)
     (session example_state ''saml_metadata_conf_url'')
     (session example_state ''saml_metadata_conf_raw'') = Inr example_client"
  by (simp add: example_defs Let_def get_saml_client_def get_current_domain_def acs_refs_def)

lemma example_admin: "get_reverse example_env [UrlName ''admin:index''] = Inr ''/admin/''"
  by (simp add: example_env_def)

lemma example_payload: "POST example_post ''SAMLResponse'' = Some ''signed-assertion''"
  by (simp add: example_post_def)

lemma example_valid:
  "parse_authn_request_response example_env example_client ''signed-assertion''
     BINDING_HTTP_POST = Inr (Some \<lparr> get_identity = Some example_identity \<rparr>)"
  by (simp add: example_env_def)

lemma example_attributes:
  "identity_attribute example_env example_identity ''email'' ''Email'' = Inr ''A@B.com''"
  "identity_attribute example_env example_identity ''username'' ''UserName'' = Inr ''a''"
  "identity_attribute example_env example_identity ''first_name'' ''FirstName'' = Inr ''A''"
  "identity_attribute example_env example_identity ''last_name'' ''LastName'' = Inr ''B''"
  by (simp_all add: example_env_def example_settings_def example_identity_def
      identity_attribute_def attribute_name_def first_of_key_def)

lemma example_user_found:
  "get_user_email_iexact (users example_state) ''A@B.com'' = Inr example_user"
  by (simp add: example_state_def example_user_def get_user_email_iexact_def lower_def
      lower_char_def)

lemma example_no_hook: "fst (before_login example_env example_identity example_state) = None"
  by (simp add: example_env_def example_settings_def before_login_def)

lemma example_denied_run:
  "acs example_env (example_post\<lparr>POST := Map.empty\<rparr>) example_state =
     (Inr (HttpResponseRedirect (Some ''/sso/denied/'')),
      example_state\<lparr>trace := [SessionGet ''saml_metadata_conf_url'',
                               SessionGet ''saml_metadata_conf_raw'',
                               SessionGet ''login_next_url'']\<rparr>)"
  by (simp add: example_defs model_defs)

text \<open>Claim C2 as stated fails: a request that carries no \<open>SAMLResponse\<close> reads the
  flow state, ends in the denial redirect, and returns without flushing; the flow state
  is still in the session.\<close>

theorem acs_denial_keeps_flow_state:
  "fst (acs example_env (example_post\<lparr>POST := Map.empty\<rparr>) example_state) =
     Inr (HttpResponseRedirect (Some ''/sso/denied/'')) \<and>
   SessionGet ''saml_metadata_conf_raw''
     \<in> set (trace (snd (acs example_env (example_post\<lparr>POST := Map.empty\<rparr>) example_state))) \<and>
   SessionFlush
     \<notin> set (trace (snd (acs example_env (example_post\<lparr>POST := Map.empty\<rparr>) example_state))) \<and>
   session (snd (acs example_env (example_post\<lparr>POST := Map.empty\<rparr>) example_state))
     ''saml_metadata_conf_raw'' = Some ''<EntityDescriptor/>'' \<and>
   session (snd (acs example_env (example_post\<lparr>POST := Map.empty\<rparr>) example_state))
     ''login_next_url'' = Some ''/dashboard''"
  by (simp add: example_denied_run) (simp add: example_state_def)

text \<open>The theorem of C2 at the example deployment.\<close>

theorem acs_flushes_once_user_found_witness:
  "session (snd (acs example_env example_post example_state)) = Map.empty \<and>
   SessionFlush \<in> set (trace (snd (acs example_env example_post example_state))) \<and>
   fst (acs example_env example_post example_state) =
     Inr (HttpResponseRedirect (Some ''/dashboard''))"
proof -
  have active: "is_active example_user"
    by (simp add: example_user_def)
  have target: "session example_state ''login_next_url'' = Some ''/dashboard''"
    by (simp add: example_state_def)
  have redirect: "http_response_redirect example_env (Some ''/dashboard'') =
                    Inr (HttpResponseRedirect (Some ''/dashboard''))"
    by (simp add: http_response_redirect_def example_env_def)
  show ?thesis
    using acs_flushes_once_user_found [OF example_flow example_client_built example_admin
        example_payload _ example_valid _ example_attributes example_user_found
        example_no_hook]
    by (simp add: active target redirect)
qed

lemma incomplete_client_built:
  "get_saml_client incomplete_env (get_current_domain incomplete_env example_post)
     (session example_state ''saml_metadata_conf_url'')
     (session example_state ''saml_metadata_conf_raw'') = Inr example_client"
  by (simp add: example_defs Let_def get_saml_client_def get_current_domain_def acs_refs_def)

lemma incomplete_admin: "get_reverse incomplete_env [UrlName ''admin:index''] = Inr ''/admin/''"
  by (simp add: incomplete_env_def example_env_def)

lemma incomplete_valid:
  "parse_authn_request_response incomplete_env example_client ''signed-assertion''
     BINDING_HTTP_POST = Inr (Some \<lparr> get_identity = Some incomplete_identity \<rparr>)"
  by (simp add: incomplete_env_def)

text \<open>The theorem of C7 at an identity without \<open>Email\<close>, and at the identity whose
  email has the values \<open>A@B.com\<close> and \<open>other@b.com\<close> while the only local user has
  the email \<open>other@b.com\<close>: the lookup is by the first value, so no user is found.\<close>

theorem acs_attribute_extraction_witness:
  "fst (acs incomplete_env example_post example_state) = Inl KeyError \<and>
   session (snd (acs incomplete_env example_post example_state)) = session example_state \<and>
   auth_user (snd (acs incomplete_env example_post example_state)) =
     auth_user example_state \<and>
   acs example_env example_post
     (example_state\<lparr>users := [example_user\<lparr>email := ''other@b.com''\<rparr>]\<rparr>) =
     (Inr (HttpResponseRedirect (Some ''/login/?sso_login_no_user=true'')),
      example_state\<lparr>users := [example_user\<lparr>email := ''other@b.com''\<rparr>],
                     trace := [SessionGet ''saml_metadata_conf_url'',
                               SessionGet ''saml_metadata_conf_raw'',
                               SessionGet ''login_next_url'',
                               ParseResponse ''signed-assertion'',
                               LogWarning ''SSO user was not found: A@B.com'']\<rparr>)"
proof -
  let ?st = "example_state\<lparr>users := [example_user\<lparr>email := ''other@b.com''\<rparr>]\<rparr>"
  have flow: "truthy (session ?st ''saml_metadata_conf_url'') \<or>
              truthy (session ?st ''saml_metadata_conf_raw'')"
    using example_flow by simp
  have client: "get_saml_client example_env (get_current_domain example_env example_post)
                  (session ?st ''saml_metadata_conf_url'')
                  (session ?st ''saml_metadata_conf_raw'') = Inr example_client"
    using example_client_built by simp
  have present:
    "example_identity (attribute_name example_env ''email'' ''Email'') =
       Some (''A@B.com'' # [''other@b.com'']) \<and>
     example_identity (attribute_name example_env ''username'' ''UserName'') =
       Some (''a'' # []) \<and>
     example_identity (attribute_name example_env ''first_name'' ''FirstName'') =
       Some (''A'' # []) \<and>
     example_identity (attribute_name example_env ''last_name'' ''LastName'') =
       Some (''B'' # [])"
    by (simp add: example_identity_def example_env_def example_settings_def
        attribute_name_def)
  have lookup:
    "find_target_user example_env example_identity ''A@B.com''
       (?st\<lparr>trace := trace ?st @
              [SessionGet ''saml_metadata_conf_url'', SessionGet ''saml_metadata_conf_raw'',
               SessionGet ''login_next_url'', ParseResponse ''signed-assertion'']\<rparr>) =
     (Inl DoesNotExist,
      ?st\<lparr>trace := trace ?st @
             [SessionGet ''saml_metadata_conf_url'', SessionGet ''saml_metadata_conf_raw'',
              SessionGet ''login_next_url'', ParseResponse ''signed-assertion'']\<rparr>)"
    by (simp add: find_target_user_def get_user_email_iexact_def example_state_def
        example_user_def lower_def lower_char_def)
  from acs_attribute_extraction [OF flow client example_admin example_payload _
      example_valid, of example_identity "''A@B.com''" "[''other@b.com'']" "''a''" "[]"
      "''A''" "[]" "''B''" "[]"] present
  have run: "acs example_env example_post ?st =
          (case find_target_user example_env example_identity ''A@B.com''
                  (?st\<lparr>trace := trace ?st @
                         [SessionGet ''saml_metadata_conf_url'',
                          SessionGet ''saml_metadata_conf_raw'',
                          SessionGet ''login_next_url'',
                          ParseResponse ''signed-assertion'']\<rparr>) of
             (Inl e, st5) \<Rightarrow>
               if e = DoesNotExist then
                 (Inr (HttpResponseRedirect (Some ''/login/?sso_login_no_user=true'')),
                  emit (LogWarning (''SSO user was not found: '' @ ''A@B.com'')) st5)
               else (Inl e, st5)
           | (Inr target_user, st5) \<Rightarrow>
               acs_login example_env
                 (case session ?st ''login_next_url'' of
                    Some v \<Rightarrow> v
                  | None \<Rightarrow> (case DEFAULT_NEXT_URL (SAML2_AUTH example_env) of
                               Some d \<Rightarrow> d
                             | None \<Rightarrow> ''/admin/''))
                 target_user st5)"
    by simp
  have second:
    "acs example_env example_post ?st =
       (Inr (HttpResponseRedirect (Some ''/login/?sso_login_no_user=true'')),
        example_state\<lparr>users := [example_user\<lparr>email := ''other@b.com''\<rparr>],
                       trace := [SessionGet ''saml_metadata_conf_url'',
                                 SessionGet ''saml_metadata_conf_raw'',
                                 SessionGet ''login_next_url'',
                                 ParseResponse ''signed-assertion'',
                                 LogWarning ''SSO user was not found: A@B.com'']\<rparr>)"
    unfolding run lookup by (simp add: emit_def example_state_def)
  have no_email:
    "incomplete_identity (attribute_name incomplete_env ''email'' ''Email'') = None"
    by (simp add: incomplete_identity_def incomplete_env_def example_env_def
        example_settings_def attribute_name_def)
  show ?thesis
    using acs_attribute_extraction [OF example_flow incomplete_client_built
        incomplete_admin example_payload _ incomplete_valid, of incomplete_identity]
      no_email second
    by simp
qed

lemma denied_response_redirect:
  "get_reverse env denied_refs = Inr url \<Longrightarrow>
     denied_response env st = (Inr (HttpResponseRedirect (Some url)), st)"
  by (simp add: denied_response_def)

text \<open>Claim C1. When the redirect target that \<open>signin\<close> resolves (the requested
  \<open>next\<close> value after the unwrapping of lines 313 to 322) is rejected by the safety
  check, and the denial route resolves, \<open>signin\<close> returns a redirect to the denial page
  and leaves the whole state as it was: \<open>login_next_url\<close> is not written to the
  session.\<close>

theorem signin_unsafe_target_denied:
  assumes "requested_next env r = Inr requested"
    and "target = (case inner_next env requested of Inr v \<Rightarrow> v | Inl e \<Rightarrow> requested)"
    and "\<not> url_has_allowed_host_and_scheme env target None"
    and "get_reverse env denied_refs = Inr denied_url"
  shows "signin env r st = (Inr (HttpResponseRedirect (Some denied_url)), st)"
  using assms
  by (cases "inner_next env requested") (simp_all add: signin_def denied_response_redirect)

lemma example_denied_route: "get_reverse example_env denied_refs = Inr ''/sso/denied/''"
  by (simp add: example_env_def denied_refs_def)

lemma example_evil_requested:
  "requested_next example_env (example_get ''https://evil.example/'') =
     Inr ''https://evil.example/''"
  by (simp add: requested_next_def example_env_def example_get_def)

lemma example_evil_target:
  "''https://evil.example/'' =
     (case inner_next example_env ''https://evil.example/'' of
        Inr v \<Rightarrow> v
      | Inl e \<Rightarrow> ''https://evil.example/'')"
  by (simp add: inner_next_def example_env_def)

lemma example_evil_unsafe:
  "\<not> url_has_allowed_host_and_scheme example_env ''https://evil.example/'' None"
  by (simp add: example_env_def)

text \<open>The theorem of C1 at the request \<open>next=https://evil.example/\<close>.\<close>

theorem signin_unsafe_target_denied_witness:
  "signin example_env (example_get ''https://evil.example/'') example_state =
     (Inr (HttpResponseRedirect (Some ''/sso/denied/'')), example_state)"
  using signin_unsafe_target_denied [OF example_evil_requested example_evil_target
      example_evil_unsafe example_denied_route]
  by simp

text \<open>Claim C8. In the configuration that \<open>_get_saml_client\<close> builds, a non-empty
  \<open>metadata_conf_raw\<close> gives inline metadata; otherwise the \<open>METADATA_INLINE\<close>
  setting, when present, gives inline metadata, and only when it is absent is the remote
  URL used. (The function raises, and builds nothing, when the route does not resolve or
  pysaml2 refuses the settings.)\<close>

theorem get_saml_client_metadata_precedence:
  assumes "get_saml_client env domain metadata_conf_url metadata_conf_raw = Inr c"
  shows "(truthy metadata_conf_raw \<longrightarrow> metadata c = Inline [the metadata_conf_raw]) \<and>
         (\<not> truthy metadata_conf_raw \<longrightarrow>
            metadata c = (case METADATA_INLINE (SAML2_AUTH env) of
                            Some m \<Rightarrow> Inline [m]
                          | None \<Rightarrow> Remote [metadata_conf_url]))"
  using assms
  by (auto simp: get_saml_client_def Let_def split: sum.splits option.splits)

lemma example_acs_route: "get_reverse example_env acs_refs = Inr ''/sso/acs/''"
  by (simp add: example_env_def acs_refs_def)

lemma example_client_inline:
  "get_saml_client example_env ''https://sp.example''
     (Some ''https://idp.example/metadata'') (Some ''<EntityDescriptor/>'') =
     Inr example_client"
  by (simp add: example_defs Let_def get_saml_client_def acs_refs_def)

lemma example_client_remote:
  "get_saml_client example_env ''https://sp.example''
     (Some ''https://idp.example/metadata'') None =
     Inr (example_client\<lparr>metadata := Remote [Some ''https://idp.example/metadata'']\<rparr>)"
  by (simp add: example_defs Let_def get_saml_client_def acs_refs_def)

text \<open>The theorem of C8 with and without raw metadata.\<close>

theorem get_saml_client_metadata_precedence_witness:
  "get_saml_client example_env ''https://sp.example''
     (Some ''https://idp.example/metadata'') (Some ''<EntityDescriptor/>'') =
     Inr example_client \<and>
   metadata example_client = Inline [''<EntityDescriptor/>''] \<and>
   get_saml_client example_env ''https://sp.example''
     (Some ''https://idp.example/metadata'') None =
     Inr (example_client\<lparr>metadata := Remote [Some ''https://idp.example/metadata'']\<rparr>) \<and>
   metadata (example_client\<lparr>metadata := Remote [Some ''https://idp.example/metadata'']\<rparr>) =
     Remote [Some ''https://idp.example/metadata'']"
  using get_saml_client_metadata_precedence [OF example_client_inline]
    get_saml_client_metadata_precedence [OF example_client_remote]
    example_client_inline example_client_remote
  by (simp add: example_env_def example_settings_def)

text \<open>Claim C9. For every domain and metadata reference, the configuration that
  \<open>_get_saml_client\<close> builds has the assertion consumer URL \<open>domain @ path\<close> (for
  both bindings), where \<open>path\<close> is the resolved path of the consumer endpoint, the same
  URL as entity id, unsolicited responses allowed, unsigned authentication requests,
  signed logout requests, signed assertions required and signed responses not
  required.\<close>

theorem get_saml_client_service_policy:
  assumes "get_saml_client env domain metadata_conf_url metadata_conf_raw = Inr c"
  shows "\<exists>path. get_reverse env acs_refs = Inr path \<and>
           assertion_consumer_service c =
             [(domain @ path, BINDING_HTTP_REDIRECT), (domain @ path, BINDING_HTTP_POST)] \<and>
           entityid c = domain @ path \<and>
           allow_unsolicited c \<and>
           \<not> authn_requests_signed c \<and>
           logout_requests_signed c \<and>
           want_assertions_signed c \<and>
           \<not> want_response_signed c"
  using assms
  by (auto simp: get_saml_client_def Let_def split: sum.splits option.splits)

text \<open>The theorem of C9 at the example deployment.\<close>

theorem get_saml_client_service_policy_witness:
  "get_saml_client example_env ''https://sp.example''
     (Some ''https://idp.example/metadata'') (Some ''<EntityDescriptor/>'') =
     Inr example_client \<and>
   get_reverse example_env acs_refs = Inr ''/sso/acs/'' \<and>
   assertion_consumer_service example_client =
     [(''https://sp.example/sso/acs/'', BINDING_HTTP_REDIRECT),
      (''https://sp.example/sso/acs/'', BINDING_HTTP_POST)] \<and>
   entityid example_client = ''https://sp.example/sso/acs/'' \<and>
   allow_unsolicited example_client \<and>
   \<not> authn_requests_signed example_client \<and>
   logout_requests_signed example_client \<and>
   want_assertions_signed example_client \<and>
   \<not> want_response_signed example_client"
  using get_saml_client_service_policy [OF example_client_inline]
    example_client_inline example_acs_route
  by simp

lemma signin_safe_target:
  assumes "requested_next env r = Inr requested"
    and "target = (case inner_next env requested of Inr v \<Rightarrow> v | Inl e \<Rightarrow> requested)"
    and "url_has_allowed_host_and_scheme env target None"
  shows "session (snd (signin env r st)) ''login_next_url'' = Some target \<and>
         SessionSet ''login_next_url'' target \<in> set (trace (snd (signin env r st)))"
  using assms
  by (cases "inner_next env requested")
    (simp_all add: signin_def Let_def emit_def split: sum.split)

text \<open>Claim C10. \<open>signin\<close> unwraps a nested redirect: when the URL-decoded requested
  value contains \<open>next=\<close>, the first value of the \<open>next\<close> parameter of its
  query replaces it, and any failure of that parsing falls back to the requested value.
  The safety check is applied to the unwrapped target, and an accepted target is what is
  stored in the session.\<close>

theorem signin_unwraps_nested_next:
  assumes "requested_next env r = Inr requested"
    and "target =
           (if contains ''next='' (unquote env requested) then
              (case urlparse_query env (unquote env requested) of
                 Inl e \<Rightarrow> requested
               | Inr query \<Rightarrow>
                   (case parse_qs env query ''next'' of
                      Some (v # vs) \<Rightarrow> v
                    | _ \<Rightarrow> requested))
            else requested)"
  shows "(\<not> url_has_allowed_host_and_scheme env target None \<longrightarrow>
            signin env r st = denied_response env st) \<and>
         (url_has_allowed_host_and_scheme env target None \<longrightarrow>
            session (snd (signin env r st)) ''login_next_url'' = Some target \<and>
            SessionSet ''login_next_url'' target \<in> set (trace (snd (signin env r st))))"
proof -
  have target: "target = (case inner_next env requested of Inr v \<Rightarrow> v | Inl e \<Rightarrow> requested)"
    using assms(2)
    by (simp add: inner_next_def first_of_key_def split: sum.split option.split list.split)
  have unsafe: "\<not> url_has_allowed_host_and_scheme env target None \<Longrightarrow>
                  signin env r st = denied_response env st"
    using assms(1) target
    by (cases "inner_next env requested") (simp_all add: signin_def)
  from unsafe signin_safe_target [OF assms(1) target] show ?thesis
    by blast
qed

lemma get_reverse_settings: "get_reverse (env\<lparr>SAML2_AUTH := s\<rparr>) refs = get_reverse env refs"
  by (induction refs) (auto split: option.splits)

lemma get_reverse_provisioning:
  "get_reverse (with_provisioning env c p h) refs = get_reverse env refs"
  by (simp add: with_provisioning_def get_reverse_settings)

lemma provisioning_selectors:
  "ASSERTION_URL (SAML2_AUTH (with_provisioning env c p h)) = ASSERTION_URL (SAML2_AUTH env)"
  "METADATA_INLINE (SAML2_AUTH (with_provisioning env c p h)) =
     METADATA_INLINE (SAML2_AUTH env)"
  "DEFAULT_NEXT_URL (SAML2_AUTH (with_provisioning env c p h)) =
     DEFAULT_NEXT_URL (SAML2_AUTH env)"
  "NAME_ID_FORMAT (SAML2_AUTH (with_provisioning env c p h)) =
     NAME_ID_FORMAT (SAML2_AUTH env)"
  "ATTRIBUTES_MAP (SAML2_AUTH (with_provisioning env c p h)) =
     ATTRIBUTES_MAP (SAML2_AUTH env)"
  "parse_authn_request_response (with_provisioning env c p h) =
     parse_authn_request_response env"
  "import_string (with_provisioning env c p h) = import_string env"
  "Saml2Config_load (with_provisioning env c p h) = Saml2Config_load env"
  "Saml2Client (with_provisioning env c p h) = Saml2Client env"
  "allowed_redirect_scheme (with_provisioning env c p h) = allowed_redirect_scheme env"
  by (simp_all add: with_provisioning_def)

lemma get_saml_client_provisioning:
  "get_saml_client (with_provisioning env c p h) domain url raw =
     get_saml_client env domain url raw"
  unfolding get_saml_client_def provisioning_selectors get_reverse_provisioning ..

lemma denied_response_provisioning:
  "denied_response (with_provisioning env c p h) st = denied_response env st"
  unfolding denied_response_def get_reverse_provisioning ..

lemma before_login_provisioning:
  "before_login (with_provisioning env c p h) ident st = before_login env ident st"
proof -
  have "(case TRIGGER (SAML2_AUTH (with_provisioning env c p h)) of
           None \<Rightarrow> None | Some t \<Rightarrow> BEFORE_LOGIN t) =
        (case TRIGGER (SAML2_AUTH env) of None \<Rightarrow> None | Some t \<Rightarrow> BEFORE_LOGIN t)"
    by (cases "TRIGGER (SAML2_AUTH env)") (simp_all add: with_provisioning_def)
  then show ?thesis
    unfolding before_login_def provisioning_selectors by simp
qed

lemma acs_login_provisioning:
  "acs_login (with_provisioning env c p h) next_url u st = acs_login env next_url u st"
  unfolding acs_login_def http_response_redirect_def denied_response_provisioning
    provisioning_selectors ..

lemma acs_resolve_provisioning:
  "acs_resolve (with_provisioning env c p h) next_url ident st =
     acs_resolve env next_url ident st"
proof -
  have attr: "\<And>logical dflt. identity_attribute (with_provisioning env c p h) ident logical dflt =
                identity_attribute env ident logical dflt"
    unfolding identity_attribute_def attribute_name_def provisioning_selectors ..
  have ftu: "\<And>mail st. find_target_user (with_provisioning env c p h) ident mail st =
               find_target_user env ident mail st"
    unfolding find_target_user_def before_login_provisioning ..
  show ?thesis
    unfolding acs_resolve_def attr ftu acs_login_provisioning ..
qed

lemma acs_provisioning:
  "acs (with_provisioning env c p h) r st = acs env r st"
proof -
  have dom: "get_current_domain (with_provisioning env c p h) r = get_current_domain env r"
    unfolding get_current_domain_def provisioning_selectors ..
  show ?thesis
    unfolding acs_def dom get_reverse_provisioning provisioning_selectors
      get_saml_client_provisioning denied_response_provisioning acs_resolve_provisioning ..
qed

lemma acs_users: "users (snd (acs env r st)) = users st"
proof -
  obtain res st' where run: "acs env r st = (res, st')"
    by (cases "acs env r st")
  then have "users st' = users st"
    unfolding acs_def Let_def
    by (auto simp: emit_def denied_response_def
          split: sum.splits option.splits if_splits
          dest!: acs_resolve_users)
  with run show ?thesis by simp
qed

lemma create_new_user_profile:
  assumes "create_new_user env uname mail firstname lastname st = (Inr u, st')"
  shows "groups u = profile_setting env USER_GROUPS [] \<and>
         is_active u = profile_setting env ACTIVE_STATUS True \<and>
         is_staff u = profile_setting env STAFF_STATUS True \<and>
         is_superuser u = profile_setting env SUPERUSER_STATUS False \<and>
         users st' = users st @ [u]"
  using assms
  by (auto simp: create_new_user_def Let_def emit_def split: if_splits)

text \<open>Claim C4, amended. \<open>acs\<close> never provisions: its result does not depend on the
  \<open>CREATE_USER\<close> switch, the \<open>NEW_USER_PROFILE\<close> defaults or the user-created
  hook, and it never changes the user table. The helper \<open>_create_new_user\<close>, which
  \<open>acs\<close> does not call, gives a user it creates the configured default groups and
  the configured active, staff and superuser flags (defaults: active, staff, not
  superuser).\<close>

theorem acs_never_provisions:
  "acs (with_provisioning env create profile hook) r st = acs env r st \<and>
   users (snd (acs env r st)) = users st \<and>
   (create_new_user env uname mail firstname lastname st = (Inr u, st') \<longrightarrow>
      groups u = profile_setting env USER_GROUPS [] \<and>
      is_active u = profile_setting env ACTIVE_STATUS True \<and>
      is_staff u = profile_setting env STAFF_STATUS True \<and>
      is_superuser u = profile_setting env SUPERUSER_STATUS False \<and>
      users st' = users st @ [u])"
  using acs_provisioning acs_users create_new_user_profile by blast

lemma provisioning_run:
  "acs provisioning_env example_post (example_state\<lparr>users := []\<rparr>) =
     (Inr (HttpResponseRedirect (Some ''/login/?sso_login_no_user=true'')),
      example_state\<lparr>users := [],
                     trace := [SessionGet ''saml_metadata_conf_url'',
                               SessionGet ''saml_metadata_conf_raw'',
                               SessionGet ''login_next_url'',
                               ParseResponse ''signed-assertion'',
                               LogWarning ''SSO user was not found: A@B.com'']\<rparr>)"
  by (simp add: example_defs model_defs)

text \<open>Claim C4 as stated fails: with \<open>CREATE_USER\<close> switched on, a new-user profile
  and a user-created hook configured, an assertion whose email matches no local user
  still ends in the redirect to the login page, and the user table stays empty.\<close>

theorem acs_provisioning_enabled_creates_no_user:
  "CREATE_USER (SAML2_AUTH provisioning_env) = Some True \<and>
   NEW_USER_PROFILE (SAML2_AUTH provisioning_env) = Some example_profile \<and>
   fst (acs provisioning_env example_post (example_state\<lparr>users := []\<rparr>)) =
     Inr (HttpResponseRedirect (Some ''/login/?sso_login_no_user=true'')) \<and>
   users (snd (acs provisioning_env example_post (example_state\<lparr>users := []\<rparr>))) = []"
  by (simp add: provisioning_run) (simp add: provisioning_env_def with_provisioning_def)

lemma example_create_run:
  "create_new_user provisioning_env ''n'' ''n@b.com'' ''N'' ''M'' example_state =
     (Inr example_created,
      example_state\<lparr>users := [example_user, example_created],
                     trace := [UserCreated ''n'']\<rparr>)"
  by (simp add: create_new_user_def profile_setting_def Let_def emit_def example_defs
      example_created_def normalize_email_def strip_def is_space_def lower_def
      lower_char_def)

text \<open>The theorem of C4 at the example deployment with provisioning switched on.\<close>

theorem acs_never_provisions_witness:
  "acs (with_provisioning provisioning_env None None None) example_post example_state =
     acs provisioning_env example_post example_state \<and>
   users (snd (acs provisioning_env example_post example_state)) = users example_state \<and>
   groups example_created = profile_setting provisioning_env USER_GROUPS [] \<and>
   is_active example_created = profile_setting provisioning_env ACTIVE_STATUS True \<and>
   is_staff example_created = profile_setting provisioning_env STAFF_STATUS True \<and>
   is_superuser example_created = profile_setting provisioning_env SUPERUSER_STATUS False \<and>
   [example_user, example_created] = users example_state @ [example_created]"
  using acs_never_provisions [where env = provisioning_env and create = None
      and profile = None and hook = None and r = example_post and st = example_state
      and uname = "''n''" and mail = "''n@b.com''" and firstname = "''N''"
      and lastname = "''M''" and u = example_created
      and st' = "example_state\<lparr>users := [example_user, example_created],
                                trace := [UserCreated ''n'']\<rparr>"]
    example_create_run
  by simp

lemma example_nested_requested:
  "requested_next example_env (example_get ''/accounts/login?next=/dashboard'') =
     Inr ''/accounts/login?next=/dashboard''"
  by (simp add: requested_next_def example_env_def example_get_def)

lemma example_nested_target:
  "''/dashboard'' =
     (if contains ''next='' (unquote example_env ''/accounts/login?next=/dashboard'') then
        (case urlparse_query example_env
                (unquote example_env ''/accounts/login?next=/dashboard'') of
           Inl e \<Rightarrow> ''/accounts/login?next=/dashboard''
         | Inr query \<Rightarrow>
             (case parse_qs example_env query ''next'' of
                Some (v # vs) \<Rightarrow> v
              | _ \<Rightarrow> ''/accounts/login?next=/dashboard''))
      else ''/accounts/login?next=/dashboard'')"
  by (simp add: example_env_def)

lemma example_nested_safe:
  "url_has_allowed_host_and_scheme example_env ''/dashboard'' None"
  by (simp add: example_env_def)

lemma example_nested_evil_requested:
  "requested_next example_env (example_get ''/accounts/login?next=https://evil.example/'') =
     Inr ''/accounts/login?next=https://evil.example/''"
  by (simp add: requested_next_def example_env_def example_get_def)

lemma example_nested_evil_target:
  "''https://evil.example/'' =
     (if contains ''next=''
           (unquote example_env ''/accounts/login?next=https://evil.example/'') then
        (case urlparse_query example_env
                (unquote example_env ''/accounts/login?next=https://evil.example/'') of
           Inl e \<Rightarrow> ''/accounts/login?next=https://evil.example/''
         | Inr query \<Rightarrow>
             (case parse_qs example_env query ''next'' of
                Some (v # vs) \<Rightarrow> v
              | _ \<Rightarrow> ''/accounts/login?next=https://evil.example/''))
      else ''/accounts/login?next=https://evil.example/'')"
  by (simp add: example_env_def)

text \<open>The theorem of C10 at the requests \<open>next=/accounts/login?next=/dashboard\<close>
  (accepted, and \<open>/dashboard\<close> is stored) and
  \<open>next=/accounts/login?next=https://evil.example/\<close> (denied, though the outer value
  is a path of the same host).\<close>

theorem signin_unwraps_nested_next_witness:
  "session (snd (signin example_env (example_get ''/accounts/login?next=/dashboard'')
                   example_state)) ''login_next_url'' = Some ''/dashboard'' \<and>
   SessionSet ''login_next_url'' ''/dashboard''
     \<in> set (trace (snd (signin example_env (example_get ''/accounts/login?next=/dashboard'')
                          example_state))) \<and>
   signin example_env (example_get ''/accounts/login?next=https://evil.example/'')
     example_state = (Inr (HttpResponseRedirect (Some ''/sso/denied/'')), example_state)"
  using signin_unwraps_nested_next [OF example_nested_requested example_nested_target,
      of example_state] example_nested_safe
    signin_unwraps_nested_next [OF example_nested_evil_requested example_nested_evil_target,
      of example_state] example_evil_unsafe
    denied_response_redirect [OF example_denied_route, of example_state]
  by simp

end
